theory Spec2Isabelle
  imports Main
begin

section \<open>Python values\<close>

text \<open>
  The program is \<^verbatim>\<open>src/main.py\<close>. Python strings are modelled as \<^typ>\<open>string\<close>,
  and the model is one of ASCII text: on a string whose characters are all in the
  range \<open>0x00\<close> to \<open>0x7F\<close> (\<open>isascii\<close> below) the functions on strings compute
  what Python computes. They leave every other character alone, where Python's
  \<^verbatim>\<open>str.lower()\<close> knows all of Unicode and can even change the length of a string.
  So a theorem that speaks of every string states only what also holds of
  \<^verbatim>\<open>str.lower()\<close> (it is idempotent, its result has no letter from A to Z), and
  what rests on the character-wise definition is stated of ASCII strings.

  The value \<^verbatim>\<open>json.loads\<close> returns is a \<open>json\<close>. A Python float is
  represented by its \<^verbatim>\<open>repr\<close> (which identifies the float), and a dict by its
  \<^verbatim>\<open>items()\<close> in iteration order.
\<close>

datatype json =
    JNull
  | JBool bool
  | JInt int
  | JFloat string
  | JStr string
  | JList "json list"
  | JObj "(string \<times> json) list"

text \<open>Exceptions, all of them subclasses of Python's \<^verbatim>\<open>Exception\<close>.\<close>

datatype py_error =
    ValueError string
  | AttributeError string
  | TypeError string
  | IndexError string
  | KeyError nat
  | JSONDecodeError string
  | APIError string
  | RequestException string
  | RuntimeError string

subsection \<open>\<^verbatim>\<open>str.lower()\<close>\<close>

definition lower_char :: "char \<Rightarrow> char" where
  "lower_char c =
     (let n = (of_char c :: nat)
      in if 65 \<le> n \<and> n \<le> 90 then char_of (n + 32) else c)"

definition py_lower :: "string \<Rightarrow> string" where
  "py_lower s = map lower_char s"

text \<open>\<^verbatim>\<open>str.isascii()\<close>.\<close>

definition isascii :: "string \<Rightarrow> bool" where
  "isascii s = (\<forall>ch \<in> set s. (of_char ch :: nat) < 128)"

subsection \<open>\<^verbatim>\<open>str()\<close> and \<^verbatim>\<open>repr()\<close>\<close>

definition digit_char :: "nat \<Rightarrow> char" where
  "digit_char d = char_of (48 + d)"

fun str_nat :: "nat \<Rightarrow> string" where
  "str_nat n = (if n < 10 then [digit_char n] else str_nat (n div 10) @ [digit_char (n mod 10)])"

definition str_int :: "int \<Rightarrow> string" where
  "str_int i = (if i < 0 then CHR ''-'' # str_nat (nat (- i)) else str_nat (nat i))"

definition hex_char :: "nat \<Rightarrow> char" where
  "hex_char d = (if d < 10 then char_of (48 + d) else char_of (87 + d))"

text \<open>
  \<^verbatim>\<open>repr\<close> of a string: single quotes, unless the string has a single quote and no
  double quote; the quote and the backslash are escaped, and so are the control
  characters.
\<close>

definition repr_char :: "char \<Rightarrow> char \<Rightarrow> string" where
  "repr_char q c =
     (let n = (of_char c :: nat)
      in if c = q \<or> c = CHR 0x5C then [CHR 0x5C, c]
         else if c = CHR 0x09 then [CHR 0x5C, CHR ''t'']
         else if c = CHR 0x0A then [CHR 0x5C, CHR ''n'']
         else if c = CHR 0x0D then [CHR 0x5C, CHR ''r'']
         else if n < 32 \<or> n = 127 then [CHR 0x5C, CHR ''x'', hex_char (n div 16), hex_char (n mod 16)]
         else [c])"

definition repr_str :: "string \<Rightarrow> string" where
  "repr_str s =
     (let q = (if CHR 0x27 \<in> set s \<and> CHR 0x22 \<notin> set s then CHR 0x22 else CHR 0x27)
      in q # concat (map (repr_char q) s) @ [q])"

fun join :: "string \<Rightarrow> string list \<Rightarrow> string" where
  "join sep [] = []"
| "join sep [x] = x"
| "join sep (x # y # ys) = x @ sep @ join sep (y # ys)"

fun py_repr :: "json \<Rightarrow> string" where
  "py_repr JNull = ''None''"
| "py_repr (JBool b) = (if b then ''True'' else ''False'')"
| "py_repr (JInt i) = str_int i"
| "py_repr (JFloat r) = r"
| "py_repr (JStr s) = repr_str s"
| "py_repr (JList xs) = ''['' @ join '', '' (map py_repr xs) @ '']''"
| "py_repr (JObj kvs) =
     ''{'' @ join '', '' (map (\<lambda>kv. repr_str (fst kv) @ '': '' @ py_repr (snd kv)) kvs) @ ''}''"

fun py_str :: "json \<Rightarrow> string" where
  "py_str (JStr s) = s"
| "py_str v = py_repr v"

declare str_nat.simps [simp del]

definition repr_list :: "string list \<Rightarrow> string" where
  "repr_list xs = ''['' @ join '', '' (map repr_str xs) @ '']''"

section \<open>The outside world\<close>

text \<open>
  What the program reads from its environment and the services it calls. Each call
  that can raise returns a sum, \<open>Inl\<close> the exception.
  \<^item> \<open>GROQ_API_KEY\<close>: \<^verbatim>\<open>os.environ.get("GROQ_API_KEY")\<close>, read once at import;
  \<^item> \<open>groq_client\<close>: \<^verbatim>\<open>Groq(api_key=GROQ_API_KEY)\<close> of line 24, which can raise;
    the client it gives is its \<^verbatim>\<open>chat.completions.create\<close> for a caption, whose
    result is the \<^verbatim>\<open>message.content\<close> of each of \<^verbatim>\<open>choices\<close> (a content can be
    \<^verbatim>\<open>None\<close>);
  \<^item> \<open>json_loads\<close>: \<^verbatim>\<open>json.loads\<close>;
  \<^item> \<open>yolo_load\<close>: \<^verbatim>\<open>YOLO('yolov8n.pt')\<close>, giving the dict \<^verbatim>\<open>model.names\<close>;
  \<^item> \<open>yolo_infer\<close>: \<^verbatim>\<open>model(image_path)\<close>: for each result, the class id
    \<^verbatim>\<open>int(box.cls[0])\<close> of each of its boxes;
  \<^item> \<open>mkdir\<close>: \<^verbatim>\<open>mkdir(exist_ok=True)\<close> of a path, \<open>None\<close> when it succeeds (it
    raises when the path is a regular file, for one);
  \<^item> \<open>download\<close>: the body of the \<^verbatim>\<open>try\<close> in \<^verbatim>\<open>setup_environment\<close>.
\<close>

record services =
  GROQ_API_KEY :: "string option"
  groq_client :: "py_error + (string \<Rightarrow> py_error + string option list)"
  json_loads :: "string \<Rightarrow> py_error + json"
  yolo_load :: "py_error + (nat \<rightharpoonup> string)"
  yolo_infer :: "string \<Rightarrow> py_error + nat list list"
  mkdir :: "string \<Rightarrow> py_error option"
  download :: "string \<Rightarrow> py_error + unit"

text \<open>
  The outcome of lines 24 and 26 together: the exception of the constructor or of the
  call, or the choices of the completion. It returns choices only when the client was
  built.
\<close>

definition chat_create :: "services \<Rightarrow> string \<Rightarrow> py_error + string option list" where
  "chat_create env caption =
     (case groq_client env of Inl e \<Rightarrow> Inl e | Inr client \<Rightarrow> client caption)"

text \<open>
  The effects of a run, in order. \<open>Print\<close> is a line on standard output;
  \<open>PrintSet\<close> is a line that ends with \<^verbatim>\<open>list(s)\<close> for a set \<open>s\<close>, whose order
  Python leaves open; \<open>PrintExc\<close> is a line that ends with an exception's text. The
  three pictographs that start report lines of \<^verbatim>\<open>verify_caption\<close> are left out.
\<close>

datatype event =
    Print string
  | PrintSet string "string set"
  | PrintExc string py_error
  | GroqRequest string
  | YoloLoad
  | YoloInfer string
  | Mkdir string
  | HttpGet string

definition IMAGE_URL :: string where
  "IMAGE_URL = ''https://images.pexels.com/photos/1108099/pexels-photo-1108099.jpeg''"

definition ASSETS_DIR :: string where
  "ASSETS_DIR = ''assets''"

definition DEFAULT_IMAGE_PATH :: string where
  "DEFAULT_IMAGE_PATH = ASSETS_DIR @ ''/dogs.jpg''"

section \<open>\<^verbatim>\<open>extract_objects_with_llm\<close>\<close>

text \<open>The \<^verbatim>\<open>for\<close> loop over \<^verbatim>\<open>data.items()\<close>, started with \<^verbatim>\<open>extracted_list = []\<close>.\<close>

fun scan_items :: "(string \<times> json) list \<Rightarrow> json list" where
  "scan_items [] = []"
| "scan_items ((k, JList xs) # rest) = xs"
| "scan_items ((k, v) # rest) = scan_items rest"

definition type_name :: "json \<Rightarrow> string" where
  "type_name v =
     (case v of
        JNull \<Rightarrow> ''NoneType''
      | JBool b \<Rightarrow> ''bool''
      | JInt i \<Rightarrow> ''int''
      | JFloat r \<Rightarrow> ''float''
      | JStr s \<Rightarrow> ''str''
      | JList xs \<Rightarrow> ''list''
      | JObj kvs \<Rightarrow> ''dict'')"

text \<open>Lines 47 to 57: the list inside the parsed reply. A value that is neither a list
  nor a dict has no \<^verbatim>\<open>items\<close>.\<close>

definition find_list :: "json \<Rightarrow> py_error + json list" where
  "find_list data =
     (case data of
        JList xs \<Rightarrow> Inr xs
      | JObj kvs \<Rightarrow>
          (let extracted_list = scan_items kvs
           in if extracted_list = []
              then Inl (ValueError ''LLM did not return a list of objects in the expected format.'')
              else Inr extracted_list)
      | _ \<Rightarrow> Inl (AttributeError (repr_str (type_name data) @ '' object has no attribute '' @ repr_str ''items'')))"

text \<open>
  Lines 26 to 59: the body of the \<^verbatim>\<open>try\<close>, for the client of line 24.
  \<^verbatim>\<open>choices[0]\<close> of an empty list and \<^verbatim>\<open>json.loads(None)\<close> raise.
\<close>

definition llm_request ::
  "services \<Rightarrow> (string \<Rightarrow> py_error + string option list) \<Rightarrow> string \<Rightarrow> py_error + string list" where
  "llm_request env client caption =
     (case client caption of
        Inl e \<Rightarrow> Inl e
      | Inr choices \<Rightarrow>
          (case choices of
             [] \<Rightarrow> Inl (IndexError ''list index out of range'')
           | None # _ \<Rightarrow>
               Inl (TypeError ''the JSON object must be str, bytes or bytearray, not NoneType'')
           | Some response_content # _ \<Rightarrow>
               (case json_loads env response_content of
                  Inl e \<Rightarrow> Inl e
                | Inr data \<Rightarrow>
                    (case find_list data of
                       Inl e \<Rightarrow> Inl e
                     | Inr extracted_list \<Rightarrow>
                         Inr (map (\<lambda>item. py_lower (py_str item)) extracted_list)))))"

text \<open>
  Python's \<^verbatim>\<open>not GROQ_API_KEY\<close>: the variable is unset or empty. The check of lines
  21 and 22 and the constructor of line 24 stand before the \<^verbatim>\<open>try\<close>, so their
  exceptions leave the function; the handler of lines 61 to 63 prints any exception of
  the body and returns \<^verbatim>\<open>[]\<close>.
\<close>

definition no_key :: "services \<Rightarrow> bool" where
  "no_key env = (GROQ_API_KEY env = None \<or> GROQ_API_KEY env = Some [])"

definition extract_objects_with_llm ::
  "services \<Rightarrow> string \<Rightarrow> (py_error + string list) \<times> event list" where
  "extract_objects_with_llm env caption =
     (if no_key env
      then (Inl (ValueError ''GROQ_API_KEY not found. Please set it in your .env file.''), [])
      else (case groq_client env of
              Inl e \<Rightarrow> (Inl e, [])
            | Inr client \<Rightarrow>
                (case llm_request env client caption of
                   Inr objects \<Rightarrow> (Inr objects, [GroqRequest caption])
                 | Inl e \<Rightarrow>
                     (Inr [], [GroqRequest caption,
                               PrintExc ''Error communicating with Groq API: '' e]))))"

section \<open>\<^verbatim>\<open>detect_objects_with_yolo\<close>\<close>

text \<open>
  The Python set \<^verbatim>\<open>detected_objects\<close> is a list without duplicates;
  \<^verbatim>\<open>list(detected_objects)\<close> is that list. Python leaves the order open: the model
  takes the order of first insertion, and no theorem below depends on it.
\<close>

definition set_add :: "string \<Rightarrow> string list \<Rightarrow> string list" where
  "set_add x s = (if x \<in> set s then s else s @ [x])"

fun add_boxes :: "(nat \<rightharpoonup> string) \<Rightarrow> nat list \<Rightarrow> string list \<Rightarrow> py_error + string list" where
  "add_boxes names [] detected_objects = Inr detected_objects"
| "add_boxes names (class_id # boxes) detected_objects =
     (case names class_id of
        None \<Rightarrow> Inl (KeyError class_id)
      | Some class_name \<Rightarrow> add_boxes names boxes (set_add (py_lower class_name) detected_objects))"

fun add_results :: "(nat \<rightharpoonup> string) \<Rightarrow> nat list list \<Rightarrow> string list \<Rightarrow> py_error + string list" where
  "add_results names [] detected_objects = Inr detected_objects"
| "add_results names (boxes # results) detected_objects =
     (case add_boxes names boxes detected_objects of
        Inl e \<Rightarrow> Inl e
      | Inr detected_objects' \<Rightarrow> add_results names results detected_objects')"

definition detect_objects_with_yolo ::
  "services \<Rightarrow> string \<Rightarrow> (py_error + string list) \<times> event list" where
  "detect_objects_with_yolo env image_path =
     (let out1 = [Print (CHR 0x0A # ''Loading YOLOv8 model... (This might take a moment on first run)''),
                  YoloLoad]
      in case yolo_load env of
           Inl e \<Rightarrow> (Inl e, out1)
         | Inr names \<Rightarrow>
             (let out2 = out1 @ [Print (''Analyzing image with YOLOv8: '' @ image_path),
                                 YoloInfer image_path]
              in case yolo_infer env image_path of
                   Inl e \<Rightarrow> (Inl e, out2)
                 | Inr results \<Rightarrow> (add_results names results [], out2)))"

section \<open>\<^verbatim>\<open>verify_caption\<close>\<close>

record report =
  verified :: "string set"
  hallucinated :: "string set"

text \<open>Lines 109 to 113: the comparison of the two lists.\<close>

definition reconcile :: "string list \<Rightarrow> string list \<Rightarrow> report" where
  "reconcile caption_objects image_objects =
     (let caption_set = set caption_objects;
          image_set = set image_objects;
          hallucinated_objects = caption_set - image_set;
          verified_objects = caption_set \<inter> image_set
      in \<lparr>verified = verified_objects, hallucinated = hallucinated_objects\<rparr>)"

text \<open>
  \<^verbatim>\<open>verify_caption\<close> returns \<^verbatim>\<open>None\<close> on each of its three paths; the model
  returns which path was taken, and on the last one the two sets it printed.
\<close>

datatype outcome = NoCaptionObjects | NoImageObjects | Reported report

definition report_lines :: "report \<Rightarrow> event list" where
  "report_lines r =
     [Print (CHR 0x0A # ''--- Verification Report ---''),
      (if verified r \<noteq> {} then PrintSet ''VERIFIED objects: '' (verified r)
       else Print ''No objects from the caption were verified in the image.''),
      (if hallucinated r \<noteq> {} then PrintSet ''POTENTIAL HALLUCINATIONS: '' (hallucinated r)
       else Print ''No object hallucinations detected!''),
      Print ''-------------------------'']"

definition verify_caption ::
  "services \<Rightarrow> string \<Rightarrow> string \<Rightarrow> (py_error + outcome) \<times> event list" where
  "verify_caption env image_path caption =
     (let out0 = [Print (CHR 0x0A # ''--- Verifying Caption --- ''),
                  Print (''IMAGE: '' @ image_path),
                  Print (''CAPTION: '' @ [CHR 0x22] @ caption @ [CHR 0x22, CHR 0x0A]),
                  Print ''Step 1: Extracting objects from caption using LLM...'']
      in case extract_objects_with_llm env caption of
           (Inl e, out1) \<Rightarrow> (Inl e, out0 @ out1)
         | (Inr caption_objects, out1) \<Rightarrow>
             if caption_objects = []
             then (Inr NoCaptionObjects,
                   out0 @ out1 @ [Print ''Could not extract any objects from the caption.''])
             else
               (let out2 = out0 @ out1 @
                      [Print (''  > LLM identified: '' @ repr_list caption_objects),
                       Print (CHR 0x0A # ''Step 2: Detecting objects in the image using YOLOv8...'')]
                in case detect_objects_with_yolo env image_path of
                     (Inl e, out3) \<Rightarrow> (Inl e, out2 @ out3)
                   | (Inr image_objects, out3) \<Rightarrow>
                       if image_objects = []
                       then (Inr NoImageObjects,
                             out2 @ out3 @ [Print ''YOLOv8 did not detect any objects in the image.''])
                       else
                         (let r = reconcile caption_objects image_objects
                          in (Inr (Reported r),
                              out2 @ out3 @
                              [Print (''  > YOLOv8 detected: '' @ repr_list image_objects),
                               Print (CHR 0x0A # ''Step 3: Comparing results and identifying hallucinations...'')]
                              @ report_lines r))))"

section \<open>The script\<close>

text \<open>
  How a call ends: it returns, an exception leaves it, or \<^verbatim>\<open>exit(n)\<close> was called.
  The files that exist are a set of paths.
\<close>

datatype ending = Returned | Raised py_error | SystemExit nat

definition exit_code :: "ending \<Rightarrow> nat" where
  "exit_code t = (case t of Returned \<Rightarrow> 0 | Raised e \<Rightarrow> 1 | SystemExit n \<Rightarrow> n)"

definition is_request_exception :: "py_error \<Rightarrow> bool" where
  "is_request_exception e = (case e of RequestException m \<Rightarrow> True | _ \<Rightarrow> False)"

definition setup_environment :: "services \<Rightarrow> string set \<Rightarrow> ending \<times> event list \<times> string set" where
  "setup_environment env files =
     (case mkdir env ASSETS_DIR of
        Some e \<Rightarrow> (Raised e, [Mkdir ASSETS_DIR], files)
      | None \<Rightarrow>
          (let files1 = insert ASSETS_DIR files
           in if DEFAULT_IMAGE_PATH \<in> files1 then (Returned, [Mkdir ASSETS_DIR], files1)
              else
                (let out1 = [Mkdir ASSETS_DIR,
                             Print (''Downloading sample image to '' @ DEFAULT_IMAGE_PATH @ ''...''),
                             HttpGet IMAGE_URL]
                 in case download env IMAGE_URL of
                      Inr u \<Rightarrow> (Returned, out1 @ [Print ''Download complete.''],
                                 insert DEFAULT_IMAGE_PATH files1)
                    | Inl e \<Rightarrow>
                        if is_request_exception e
                        then (SystemExit 1, out1 @ [PrintExc ''Error downloading image: '' e], files1)
                        else (Raised e, out1, files1))))"

text \<open>
  The command line after \<^verbatim>\<open>parse_args\<close>: \<open>image_arg\<close> and \<open>caption_arg\<close> are the values of
  \<^verbatim>\<open>--image\<close> and \<^verbatim>\<open>--caption\<close>, \<open>None\<close> when the option is not given.
  \<^verbatim>\<open>--caption\<close> is required: without it \<^verbatim>\<open>argparse\<close> prints the usage and exits
  with status 2. A path is written in the normal form of \<^verbatim>\<open>pathlib\<close>, the one
  \<^verbatim>\<open>str(Path(args.image))\<close> gives (\<^verbatim>\<open>x\<close> for \<^verbatim>\<open>./x\<close>): \<open>image_arg\<close> and the
  members of \<open>files\<close> are such paths, and it is what the program tests and prints.
\<close>

definition main :: "services \<Rightarrow> string set \<Rightarrow> string option \<Rightarrow> string option \<Rightarrow> ending \<times> event list" where
  "main env files image_arg caption_arg =
     (case caption_arg of
        None \<Rightarrow> (SystemExit 2, [])
      | Some c \<Rightarrow>
          (let image_path = (case image_arg of None \<Rightarrow> DEFAULT_IMAGE_PATH | Some p \<Rightarrow> p)
           in if image_path \<notin> files
              then (Returned, [Print (''Error: Image file not found at '' @ image_path)])
              else (case verify_caption env image_path c of
                      (Inl e, out) \<Rightarrow> (Raised e, out)
                    | (Inr r, out) \<Rightarrow> (Returned, out))))"

text \<open>Lines 171 to 173: \<^verbatim>\<open>setup_environment()\<close>, then \<^verbatim>\<open>main()\<close>.\<close>

definition script :: "services \<Rightarrow> string set \<Rightarrow> string option \<Rightarrow> string option \<Rightarrow> ending \<times> event list" where
  "script env files image_arg caption_arg =
     (case setup_environment env files of
        (Returned, out1, files1) \<Rightarrow>
          (case main env files1 image_arg caption_arg of (t, out2) \<Rightarrow> (t, out1 @ out2))
      | (t, out1, files1) \<Rightarrow> (t, out1))"

section \<open>The specification's reading of the reply\<close>

text \<open>
  The specification resolves the candidate list of a reply in its own words: a
  top-level list is used directly; of an object, the first value that is a list is
  used; anything else is a failure. \<open>spec_candidate_list\<close> follows these words and
  is compared with \<open>find_list\<close> below.
\<close>

definition is_list :: "json \<Rightarrow> bool" where
  "is_list v = (case v of JList xs \<Rightarrow> True | _ \<Rightarrow> False)"

definition spec_candidate_list :: "json \<Rightarrow> json list option" where
  "spec_candidate_list data =
     (case data of
        JList xs \<Rightarrow> Some xs
      | JObj kvs \<Rightarrow>
          (case List.find is_list (map snd kvs) of
             Some (JList xs) \<Rightarrow> Some xs
           | _ \<Rightarrow> None)
      | _ \<Rightarrow> None)"

section \<open>Environments of the examples\<close>

text \<open>
  Five entries of the vocabulary of the detection model, and services that answer
  every caption with the text \<open>reply\<close> (which parses to \<open>data\<close>) and find the
  boxes \<open>results\<close> in every image.
\<close>

definition coco_names :: "nat \<rightharpoonup> string" where
  "coco_names = [0 \<mapsto> ''person'', 15 \<mapsto> ''cat'', 16 \<mapsto> ''dog'', 57 \<mapsto> ''couch'',
                 60 \<mapsto> ''dining table'']"

definition stub_services :: "string \<Rightarrow> json \<Rightarrow> nat list list \<Rightarrow> services" where
  "stub_services reply data results =
     \<lparr>GROQ_API_KEY = Some ''gsk_test'',
      groq_client = Inr (\<lambda>caption. Inr [Some reply]),
      json_loads = (\<lambda>s. if s = reply then Inr data else Inl (JSONDecodeError ''Expecting value'')),
      yolo_load = Inr coco_names,
      yolo_infer = (\<lambda>image_path. Inr results),
      mkdir = (\<lambda>path. None),
      download = (\<lambda>url. Inr ())\<rparr>"

section \<open>Facts about the extractor and the orchestrator\<close>

lemma extract_with_key:
  "\<not> no_key env \<Longrightarrow> groq_client env = Inr client \<Longrightarrow>
   extract_objects_with_llm env c =
     (case llm_request env client c of
        Inr objects \<Rightarrow> (Inr objects, [GroqRequest c])
      | Inl e \<Rightarrow> (Inr [], [GroqRequest c, PrintExc ''Error communicating with Groq API: '' e]))"
  by (simp add: extract_objects_with_llm_def)

lemma extract_constructor_raises:
  "\<not> no_key env \<Longrightarrow> groq_client env = Inl e \<Longrightarrow>
   extract_objects_with_llm env c = (Inl e, [])"
  by (simp add: extract_objects_with_llm_def)

lemma chat_create_Inr:
  "chat_create env c = Inr choices \<Longrightarrow>
   \<exists>client. groq_client env = Inr client \<and> client c = Inr choices"
  by (auto simp: chat_create_def split: sum.splits)

lemma llm_request_parsed:
  "client c = Inr (Some content # rest) \<Longrightarrow> json_loads env content = Inr data \<Longrightarrow>
   llm_request env client c =
     (case find_list data of Inl e \<Rightarrow> Inl e
      | Inr items \<Rightarrow> Inr (map (\<lambda>item. py_lower (py_str item)) items))"
  by (simp add: llm_request_def)

lemma extract_parsed:
  assumes "\<not> no_key env" and "chat_create env c = Inr (Some content # rest)"
    and "json_loads env content = Inr data"
  shows "extract_objects_with_llm env c =
     (case find_list data of
        Inl e \<Rightarrow> (Inr [], [GroqRequest c, PrintExc ''Error communicating with Groq API: '' e])
      | Inr items \<Rightarrow> (Inr (map (\<lambda>item. py_lower (py_str item)) items), [GroqRequest c]))"
proof -
  from chat_create_Inr [OF assms(2)] obtain client
    where cl: "groq_client env = Inr client" and r: "client c = Inr (Some content # rest)"
    by blast
  show ?thesis
    by (simp add: extract_with_key [OF assms(1) cl]
        llm_request_parsed [where client = client and c = c, OF r assms(3)] split: sum.splits)
qed

lemma scan_items_find:
  "scan_items kvs = (case List.find is_list (map snd kvs) of Some (JList xs) \<Rightarrow> xs | _ \<Rightarrow> [])"
  by (induction kvs rule: scan_items.induct) (simp_all add: is_list_def)

lemma find_is_list: "List.find is_list vs = Some v \<Longrightarrow> \<exists>xs. v = JList xs"
  by (induction vs) (auto simp: is_list_def split: if_splits json.splits)

lemma find_list_spec:
  "(case find_list data of Inl e \<Rightarrow> [] | Inr items \<Rightarrow> items) =
   (case spec_candidate_list data of None \<Rightarrow> [] | Some items \<Rightarrow> items)"
  by (cases data) (auto simp: find_list_def spec_candidate_list_def scan_items_find Let_def
      split: option.splits json.splits dest: find_is_list)

lemma find_list_spec_None:
  "spec_candidate_list data = None \<Longrightarrow> \<exists>e. find_list data = Inl e"
  by (cases data) (auto simp: find_list_def spec_candidate_list_def scan_items_find Let_def
      split: option.splits json.splits dest: find_is_list)

lemma verify_caption_fst:
  "fst (verify_caption env p c) =
     (case fst (extract_objects_with_llm env c) of
        Inl e \<Rightarrow> Inl e
      | Inr C \<Rightarrow>
          if C = [] then Inr NoCaptionObjects
          else (case fst (detect_objects_with_yolo env p) of
                  Inl e \<Rightarrow> Inl e
                | Inr D \<Rightarrow> if D = [] then Inr NoImageObjects else Inr (Reported (reconcile C D))))"
  by (simp add: verify_caption_def Let_def split: prod.splits sum.splits)

lemma verify_caption_reported:
  assumes "fst (verify_caption env p c) = Inr (Reported r)"
  shows "\<exists>C D. fst (extract_objects_with_llm env c) = Inr C \<and> C \<noteq> [] \<and>
               fst (detect_objects_with_yolo env p) = Inr D \<and> D \<noteq> [] \<and> r = reconcile C D"
  using assms unfolding verify_caption_fst by (auto split: sum.splits if_splits)

lemma lower_char_idem: "lower_char (lower_char c) = lower_char c"
  by (simp add: lower_char_def Let_def)

lemma lower_char_not_upper:
  "\<not> (65 \<le> (of_char (lower_char c) :: nat) \<and> (of_char (lower_char c) :: nat) \<le> 90)"
  by (simp add: lower_char_def Let_def)

lemma py_lower_idem: "py_lower (py_lower s) = py_lower s"
  by (simp add: py_lower_def lower_char_idem)

lemma py_lower_no_upper:
  "ch \<in> set (py_lower s) \<Longrightarrow> \<not> (65 \<le> (of_char ch :: nat) \<and> (of_char ch :: nat) \<le> 90)"
  using lower_char_not_upper by (auto simp: py_lower_def)

lemma extract_accepted:
  assumes "\<not> no_key env" and "chat_create env c = Inr (Some content # rest)"
    and "json_loads env content = Inr data" and "find_list data = Inr items"
  shows "extract_objects_with_llm env c =
           (Inr (map (\<lambda>item. py_lower (py_str item)) items), [GroqRequest c])"
  by (simp add: extract_parsed [OF assms(1,2,3)] assms(4))

lemma extract_failed:
  assumes "\<not> no_key env" and "groq_client env = Inr client" and "llm_request env client c = Inl e"
  shows "extract_objects_with_llm env c =
           (Inr [], [GroqRequest c, PrintExc ''Error communicating with Groq API: '' e])"
  by (simp add: extract_with_key [OF assms(1,2)] assms(3))

lemma extract_missing_key:
  "no_key env \<Longrightarrow>
   extract_objects_with_llm env c =
     (Inl (ValueError ''GROQ_API_KEY not found. Please set it in your .env file.''), [])"
  by (simp add: extract_objects_with_llm_def)

lemma reconcile_cong: "set C = set C' \<Longrightarrow> reconcile C D = reconcile C' D"
  by (simp add: reconcile_def)

lemma verify_caption_missing_key:
  "no_key env \<Longrightarrow>
   verify_caption env p c =
     (Inl (ValueError ''GROQ_API_KEY not found. Please set it in your .env file.''),
      [Print (CHR 0x0A # ''--- Verifying Caption --- ''),
       Print (''IMAGE: '' @ p),
       Print (''CAPTION: '' @ [CHR 0x22] @ c @ [CHR 0x22, CHR 0x0A]),
       Print ''Step 1: Extracting objects from caption using LLM...''])"
  by (simp add: verify_caption_def extract_missing_key)

lemma setup_environment_files:
  "setup_environment env files = (t, out, files1) \<Longrightarrow> files \<subseteq> files1"
  by (auto simp: setup_environment_def Let_def split: if_splits sum.splits option.splits)

lemma script_after_setup:
  "setup_environment env files = (Returned, out1, files1) \<Longrightarrow>
   fst (script env files image_arg caption_arg) = fst (main env files1 image_arg caption_arg)"
  by (simp add: script_def split: prod.splits)

section \<open>Facts about the detector and the effects of a run\<close>

lemma set_add_distinct: "distinct s \<Longrightarrow> distinct (set_add x s)"
  by (simp add: set_add_def)

lemma set_set_add: "set (set_add x s) = insert x (set s)"
  by (auto simp: set_add_def)

lemma add_boxes_Inr:
  "add_boxes names boxes acc = Inr ys \<Longrightarrow> distinct acc \<Longrightarrow>
   distinct ys \<and> set boxes \<subseteq> dom names \<and>
   set ys = set acc \<union> (\<lambda>i. py_lower (the (names i))) ` set boxes"
proof (induction boxes arbitrary: acc)
  case Nil
  then show ?case by simp
next
  case (Cons class_id boxes)
  from Cons.prems obtain class_name where n: "names class_id = Some class_name"
    and rest: "add_boxes names boxes (set_add (py_lower class_name) acc) = Inr ys"
    by (auto split: option.splits)
  from Cons.IH [OF rest] Cons.prems(2) n show ?case
    by (auto simp: set_add_distinct set_set_add)
qed

lemma add_results_Inr:
  "add_results names results acc = Inr ys \<Longrightarrow> distinct acc \<Longrightarrow>
   distinct ys \<and> set (concat results) \<subseteq> dom names \<and>
   set ys = set acc \<union> (\<lambda>i. py_lower (the (names i))) ` set (concat results)"
proof (induction results arbitrary: acc)
  case Nil
  then show ?case by simp
next
  case (Cons boxes results)
  from Cons.prems obtain acc' where b: "add_boxes names boxes acc = Inr acc'"
    and rest: "add_results names results acc' = Inr ys"
    by (auto split: sum.splits)
  from add_boxes_Inr [OF b Cons.prems(2)] Cons.IH [OF rest] show ?case
    by auto
qed

lemma detect_Inr:
  assumes "fst (detect_objects_with_yolo env p) = Inr D"
  shows "\<exists>names results. yolo_load env = Inr names \<and> yolo_infer env p = Inr results \<and>
           set (concat results) \<subseteq> dom names \<and> distinct D \<and>
           set D = (\<lambda>i. py_lower (the (names i))) ` set (concat results)"
proof -
  from assms obtain names results where l: "yolo_load env = Inr names"
    and i: "yolo_infer env p = Inr results" and a: "add_results names results [] = Inr D"
    by (auto simp: detect_objects_with_yolo_def Let_def split: sum.splits)
  from add_results_Inr [OF a] l i show ?thesis by auto
qed

lemma extract_events:
  "ev \<in> set (snd (extract_objects_with_llm env c)) \<Longrightarrow>
   (\<exists>s. ev = GroqRequest s) \<or> (\<exists>s e. ev = PrintExc s e)"
  by (auto simp: extract_objects_with_llm_def split: if_splits sum.splits)

lemma detect_events:
  "ev \<in> set (snd (detect_objects_with_yolo env p)) \<Longrightarrow>
   ev = Print (CHR 0x0A # ''Loading YOLOv8 model... (This might take a moment on first run)'') \<or>
   ev = YoloLoad \<or> ev = Print (''Analyzing image with YOLOv8: '' @ p) \<or> ev = YoloInfer p"
  by (auto simp: detect_objects_with_yolo_def Let_def split: sum.splits)

lemma verify_caption_snd_no_caption:
  "fst (extract_objects_with_llm env c) = Inr [] \<Longrightarrow>
   snd (verify_caption env p c) =
     [Print (CHR 0x0A # ''--- Verifying Caption --- ''),
      Print (''IMAGE: '' @ p),
      Print (''CAPTION: '' @ [CHR 0x22] @ c @ [CHR 0x22, CHR 0x0A]),
      Print ''Step 1: Extracting objects from caption using LLM...'']
     @ snd (extract_objects_with_llm env c)
     @ [Print ''Could not extract any objects from the caption.'']"
  by (cases "extract_objects_with_llm env c") (simp add: verify_caption_def Let_def)

lemma verify_caption_snd_no_image:
  "fst (extract_objects_with_llm env c) = Inr C \<Longrightarrow> C \<noteq> [] \<Longrightarrow>
   fst (detect_objects_with_yolo env p) = Inr [] \<Longrightarrow>
   snd (verify_caption env p c) =
     [Print (CHR 0x0A # ''--- Verifying Caption --- ''),
      Print (''IMAGE: '' @ p),
      Print (''CAPTION: '' @ [CHR 0x22] @ c @ [CHR 0x22, CHR 0x0A]),
      Print ''Step 1: Extracting objects from caption using LLM...'']
     @ snd (extract_objects_with_llm env c)
     @ [Print (''  > LLM identified: '' @ repr_list C),
        Print (CHR 0x0A # ''Step 2: Detecting objects in the image using YOLOv8...'')]
     @ snd (detect_objects_with_yolo env p)
     @ [Print ''YOLOv8 did not detect any objects in the image.'']"
  by (cases "extract_objects_with_llm env c"; cases "detect_objects_with_yolo env p")
    (simp add: verify_caption_def Let_def)

lemma report_lines_events:
  "ev \<in> set (report_lines r) \<Longrightarrow>
   ev = Print (CHR 0x0A # ''--- Verification Report ---'') \<or>
   (\<exists>S. ev = PrintSet ''VERIFIED objects: '' S) \<or>
   ev = Print ''No objects from the caption were verified in the image.'' \<or>
   (\<exists>S. ev = PrintSet ''POTENTIAL HALLUCINATIONS: '' S) \<or>
   ev = Print ''No object hallucinations detected!'' \<or>
   ev = Print ''-------------------------''"
  by (auto simp: report_lines_def split: if_splits)

section \<open>Reconciliation\<close>

text \<open>
  C1. For all lists of caption objects \<open>C\<close> and of detected objects \<open>D\<close>, the
  comparison gives verified = \<open>C \<inter> D\<close> and hallucinated = \<open>C - D\<close>, as sets of
  strings compared by plain equality. An object of \<open>D\<close> that is not in \<open>C\<close> is in
  neither set, an empty \<open>C\<close> gives two empty sets, and every report of
  \<^verbatim>\<open>verify_caption\<close> is this comparison of what the extractor and the detector
  returned.
\<close>

theorem reconcile_inter_diff:
  "verified (reconcile C D) = set C \<inter> set D \<and>
   hallucinated (reconcile C D) = set C - set D \<and>
   (x \<in> set D \<and> x \<notin> set C \<longrightarrow>
      x \<notin> verified (reconcile C D) \<and> x \<notin> hallucinated (reconcile C D)) \<and>
   reconcile [] D = \<lparr>verified = {}, hallucinated = {}\<rparr> \<and>
   (fst (verify_caption env p c) = Inr (Reported r) \<longrightarrow>
      (\<exists>C' D'. fst (extract_objects_with_llm env c) = Inr C' \<and>
               fst (detect_objects_with_yolo env p) = Inr D' \<and>
               verified r = set C' \<inter> set D' \<and> hallucinated r = set C' - set D'))"
proof -
  have sets: "verified (reconcile C D) = set C \<inter> set D"
    "hallucinated (reconcile C D) = set C - set D" for C D
    by (simp_all add: reconcile_def Let_def)
  have empty: "reconcile [] D = \<lparr>verified = {}, hallucinated = {}\<rparr>"
    by (simp add: reconcile_def Let_def)
  have run: "\<exists>C' D'. fst (extract_objects_with_llm env c) = Inr C' \<and>
               fst (detect_objects_with_yolo env p) = Inr D' \<and>
               verified r = set C' \<inter> set D' \<and> hallucinated r = set C' - set D'"
    if "fst (verify_caption env p c) = Inr (Reported r)"
    using verify_caption_reported [OF that] sets by blast
  show ?thesis
    using sets empty run by auto
qed

text \<open>
  The first scenario of the specification: the caption names a cat, a dog and a couch,
  the image shows two dogs, a couch and a dining table.
\<close>

theorem reconcile_inter_diff_witness:
  "verified (reconcile [''cat'', ''dog'', ''couch''] [''dog'', ''couch'', ''table'']) = {''dog'', ''couch''} \<and>
   hallucinated (reconcile [''cat'', ''dog'', ''couch''] [''dog'', ''couch'', ''table'']) = {''cat''} \<and>
   ''table'' \<notin> verified (reconcile [''cat'', ''dog'', ''couch''] [''dog'', ''couch'', ''table'']) \<and>
   ''table'' \<notin> hallucinated (reconcile [''cat'', ''dog'', ''couch''] [''dog'', ''couch'', ''table'']) \<and>
   fst (verify_caption
          (stub_services ''[\"cat\", \"dog\", \"couch\"]'' (JList [JStr ''cat'', JStr ''dog'', JStr ''couch''])
             [[16, 16, 57, 60]])
          ''assets/dogs.jpg'' ''A cat and a dog on a couch'')
     = Inr (Reported \<lparr>verified = {''dog'', ''couch''}, hallucinated = {''cat''}\<rparr>)"
proof -
  let ?C = "[''cat'', ''dog'', ''couch'']"
  let ?D = "[''dog'', ''couch'', ''table'']"
  let ?env = "stub_services ''[\"cat\", \"dog\", \"couch\"]'' (JList [JStr ''cat'', JStr ''dog'', JStr ''couch''])
             [[16, 16, 57, 60]]"
  have run: "fst (verify_caption ?env ''assets/dogs.jpg'' ''A cat and a dog on a couch'')
     = Inr (Reported \<lparr>verified = {''dog'', ''couch''}, hallucinated = {''cat''}\<rparr>)"
    by code_simp
  have mem: "''table'' \<in> set ?D \<and> ''table'' \<notin> set ?C"
    by simp
  from reconcile_inter_diff [of ?C ?D "''table''" ?env "''assets/dogs.jpg''"
      "''A cat and a dog on a couch''" "\<lparr>verified = {''dog'', ''couch''}, hallucinated = {''cat''}\<rparr>"]
    mem run
  show ?thesis by auto
qed

section \<open>The orchestrator\<close>

text \<open>
  C3. In every run of \<^verbatim>\<open>verify_caption\<close>: when the extractor returns the empty
  list, the run ends on the first path, the detector is not called (its two effects
  are absent from the run) and no line of the report is printed; when the extractor
  returns a non-empty list and the detector returns the empty list, the run ends on
  the second path and no line of the report is printed.
\<close>

theorem short_circuit:
  "(fst (extract_objects_with_llm env c) = Inr [] \<longrightarrow>
      fst (verify_caption env p c) = Inr NoCaptionObjects \<and>
      YoloLoad \<notin> set (snd (verify_caption env p c)) \<and>
      YoloInfer q \<notin> set (snd (verify_caption env p c)) \<and>
      set (snd (verify_caption env p c)) \<inter> set (report_lines r) = {}) \<and>
   (fst (extract_objects_with_llm env c) = Inr C \<and> C \<noteq> [] \<and>
    fst (detect_objects_with_yolo env p) = Inr [] \<longrightarrow>
      fst (verify_caption env p c) = Inr NoImageObjects \<and>
      set (snd (verify_caption env p c)) \<inter> set (report_lines r) = {})"
proof (intro conjI impI)
  assume e: "fst (extract_objects_with_llm env c) = Inr []"
  show "fst (verify_caption env p c) = Inr NoCaptionObjects"
    by (simp add: verify_caption_fst e)
  show "YoloLoad \<notin> set (snd (verify_caption env p c))"
    using extract_events [of YoloLoad env c] by (auto simp: verify_caption_snd_no_caption [OF e])
  show "YoloInfer q \<notin> set (snd (verify_caption env p c))"
    using extract_events [of "YoloInfer q" env c] by (auto simp: verify_caption_snd_no_caption [OF e])
  show "set (snd (verify_caption env p c)) \<inter> set (report_lines r) = {}"
  proof -
    have "ev \<notin> set (report_lines r)" if "ev \<in> set (snd (verify_caption env p c))" for ev
      using that extract_events [of ev env c] report_lines_events [of ev r]
      by (auto simp: verify_caption_snd_no_caption [OF e])
    then show ?thesis by blast
  qed
next
  assume a: "fst (extract_objects_with_llm env c) = Inr C \<and> C \<noteq> [] \<and>
    fst (detect_objects_with_yolo env p) = Inr []"
  then have e: "fst (extract_objects_with_llm env c) = Inr C" and C: "C \<noteq> []"
    and d: "fst (detect_objects_with_yolo env p) = Inr []"
    by simp_all
  show "fst (verify_caption env p c) = Inr NoImageObjects"
    by (simp add: verify_caption_fst e C d)
  show "set (snd (verify_caption env p c)) \<inter> set (report_lines r) = {}"
  proof -
    have "ev \<notin> set (report_lines r)" if "ev \<in> set (snd (verify_caption env p c))" for ev
      using that extract_events [of ev env c] detect_events [of ev env p] report_lines_events [of ev r]
      by (auto simp: verify_caption_snd_no_image [OF e C d])
    then show ?thesis by blast
  qed
qed

text \<open>
  The third scenario of the specification (the text service is unreachable, the image
  shows a dog), and a run where the caption names a dog and the image has no box.
\<close>

theorem short_circuit_witness:
  "fst (extract_objects_with_llm
          ((stub_services [] JNull [[16]])\<lparr>groq_client := Inr (\<lambda>caption. Inl (APIError ''Connection error.''))\<rparr>)
          ''a dog'') = Inr [] \<and>
   fst (verify_caption
          ((stub_services [] JNull [[16]])\<lparr>groq_client := Inr (\<lambda>caption. Inl (APIError ''Connection error.''))\<rparr>)
          ''assets/dogs.jpg'' ''a dog'') = Inr NoCaptionObjects \<and>
   YoloLoad \<notin> set (snd (verify_caption
          ((stub_services [] JNull [[16]])\<lparr>groq_client := Inr (\<lambda>caption. Inl (APIError ''Connection error.''))\<rparr>)
          ''assets/dogs.jpg'' ''a dog'')) \<and>
   YoloInfer ''assets/dogs.jpg'' \<notin> set (snd (verify_caption
          ((stub_services [] JNull [[16]])\<lparr>groq_client := Inr (\<lambda>caption. Inl (APIError ''Connection error.''))\<rparr>)
          ''assets/dogs.jpg'' ''a dog'')) \<and>
   fst (extract_objects_with_llm (stub_services ''[\"dog\"]'' (JList [JStr ''dog'']) [[]]) ''a dog'')
     = Inr [''dog''] \<and>
   fst (detect_objects_with_yolo (stub_services ''[\"dog\"]'' (JList [JStr ''dog'']) [[]]) ''assets/dogs.jpg'')
     = Inr [] \<and>
   fst (verify_caption (stub_services ''[\"dog\"]'' (JList [JStr ''dog'']) [[]]) ''assets/dogs.jpg'' ''a dog'')
     = Inr NoImageObjects"
proof -
  let ?A = "(stub_services [] JNull [[16]])\<lparr>groq_client := Inr (\<lambda>caption. Inl (APIError ''Connection error.''))\<rparr>"
  let ?B = "stub_services ''[\"dog\"]'' (JList [JStr ''dog'']) [[]]"
  have a: "fst (extract_objects_with_llm ?A ''a dog'') = Inr []"
    by code_simp
  have b: "fst (extract_objects_with_llm ?B ''a dog'') = Inr [''dog'']"
    by code_simp
  have d: "fst (detect_objects_with_yolo ?B ''assets/dogs.jpg'') = Inr []"
    by code_simp
  from short_circuit [where env = ?A and c = "''a dog''" and p = "''assets/dogs.jpg''"
      and q = "''assets/dogs.jpg''"] a
    short_circuit [where env = ?B and c = "''a dog''" and C = "[''dog'']" and p = "''assets/dogs.jpg''"] b d
  show ?thesis by simp
qed

text \<open>
  C4. For the comparison of any caption list \<open>C\<close> with any detected list \<open>D\<close>,
  and so for every report of \<^verbatim>\<open>verify_caption\<close>: verified and hallucinated
  together are the caption objects, they are disjoint, and every verified object was
  detected.
\<close>

theorem report_invariant:
  "verified (reconcile C D) \<union> hallucinated (reconcile C D) = set C \<and>
   verified (reconcile C D) \<inter> hallucinated (reconcile C D) = {} \<and>
   verified (reconcile C D) \<subseteq> set D \<and>
   (fst (verify_caption env p c) = Inr (Reported r) \<longrightarrow>
      (\<exists>C' D'. fst (extract_objects_with_llm env c) = Inr C' \<and>
               fst (detect_objects_with_yolo env p) = Inr D' \<and>
               verified r \<union> hallucinated r = set C' \<and>
               verified r \<inter> hallucinated r = {} \<and>
               verified r \<subseteq> set D'))"
proof -
  have inv: "verified (reconcile C D) \<union> hallucinated (reconcile C D) = set C \<and>
    verified (reconcile C D) \<inter> hallucinated (reconcile C D) = {} \<and>
    verified (reconcile C D) \<subseteq> set D" for C D
    by (auto simp: reconcile_def Let_def)
  have run: "\<exists>C' D'. fst (extract_objects_with_llm env c) = Inr C' \<and>
               fst (detect_objects_with_yolo env p) = Inr D' \<and>
               verified r \<union> hallucinated r = set C' \<and>
               verified r \<inter> hallucinated r = {} \<and>
               verified r \<subseteq> set D'"
    if "fst (verify_caption env p c) = Inr (Reported r)"
  proof -
    from verify_caption_reported [OF that] obtain C' D'
      where "fst (extract_objects_with_llm env c) = Inr C'"
        and "fst (detect_objects_with_yolo env p) = Inr D'" and "r = reconcile C' D'"
      by blast
    with inv [of C' D'] show ?thesis by blast
  qed
  from inv [of C D] run show ?thesis by blast
qed

text \<open>A run that ends with a report: a unicorn and a dog in the caption, a person and
  dogs in the image.\<close>

theorem report_invariant_witness:
  "fst (verify_caption
          (stub_services ''[\"unicorn\", \"dog\"]'' (JList [JStr ''unicorn'', JStr ''dog'']) [[0, 16], [16]])
          ''park.jpg'' ''A unicorn next to a dog'')
     = Inr (Reported \<lparr>verified = {''dog''}, hallucinated = {''unicorn''}\<rparr>) \<and>
   (\<exists>C' D'. fst (extract_objects_with_llm
                 (stub_services ''[\"unicorn\", \"dog\"]'' (JList [JStr ''unicorn'', JStr ''dog'']) [[0, 16], [16]])
                 ''A unicorn next to a dog'') = Inr C' \<and>
            fst (detect_objects_with_yolo
                 (stub_services ''[\"unicorn\", \"dog\"]'' (JList [JStr ''unicorn'', JStr ''dog'']) [[0, 16], [16]])
                 ''park.jpg'') = Inr D' \<and>
            {''dog''} \<union> {''unicorn''} = set C' \<and> {''dog''} \<subseteq> set D')"
proof -
  let ?env = "stub_services ''[\"unicorn\", \"dog\"]'' (JList [JStr ''unicorn'', JStr ''dog'']) [[0, 16], [16]]"
  have run: "fst (verify_caption ?env ''park.jpg'' ''A unicorn next to a dog'')
     = Inr (Reported \<lparr>verified = {''dog''}, hallucinated = {''unicorn''}\<rparr>)"
    by code_simp
  from report_invariant [of "[]" "[]" ?env "''park.jpg''" "''A unicorn next to a dog''"
      "\<lparr>verified = {''dog''}, hallucinated = {''unicorn''}\<rparr>"] run
  show ?thesis by simp
qed

section \<open>The text extractor\<close>

text \<open>
  C5. For every parsed reply of the text service, the extractor returns the normalized
  elements of the list the specification resolves: the top-level list, or the first
  value of the object that is a list; when there is none, the extraction fails (the
  exception is printed and the result is empty). For the wrapped reply
  \<^verbatim>\<open>{"objects": ["Cat", "Dog"]}\<close> the extractor returns cat and dog. (When the first
  list of an object is empty the code raises as well, and returns the same empty
  list.)
\<close>

theorem candidate_list_resolution:
  assumes "\<not> no_key env" and "chat_create env c = Inr (Some content # rest)"
    and "json_loads env content = Inr data"
  shows "fst (extract_objects_with_llm env c) =
           Inr (case spec_candidate_list data of
                  Some items \<Rightarrow> map (\<lambda>item. py_lower (py_str item)) items
                | None \<Rightarrow> []) \<and>
         (spec_candidate_list data = None \<longrightarrow>
            (\<exists>e. snd (extract_objects_with_llm env c) =
                   [GroqRequest c, PrintExc ''Error communicating with Groq API: '' e])) \<and>
         (data = JObj [(''objects'', JList [JStr ''Cat'', JStr ''Dog''])] \<longrightarrow>
            fst (extract_objects_with_llm env c) = Inr [''cat'', ''dog''])"
proof -
  note ext = extract_parsed [OF assms]
  have res: "fst (extract_objects_with_llm env c) =
      Inr (map (\<lambda>item. py_lower (py_str item))
             (case find_list data of Inl e \<Rightarrow> [] | Inr items \<Rightarrow> items))"
    by (simp add: ext split: sum.splits)
  have first: "fst (extract_objects_with_llm env c) =
           Inr (case spec_candidate_list data of
                  Some items \<Rightarrow> map (\<lambda>item. py_lower (py_str item)) items
                | None \<Rightarrow> [])"
    unfolding res find_list_spec by (simp split: option.splits)
  have fails: "\<exists>e. snd (extract_objects_with_llm env c) =
                   [GroqRequest c, PrintExc ''Error communicating with Groq API: '' e]"
    if "spec_candidate_list data = None"
    using find_list_spec_None [OF that] by (auto simp: ext)
  have scenario: "fst (extract_objects_with_llm env c) = Inr [''cat'', ''dog'']"
    if "data = JObj [(''objects'', JList [JStr ''Cat'', JStr ''Dog''])]"
  proof -
    have "map (\<lambda>item. py_lower (py_str item)) [JStr ''Cat'', JStr ''Dog''] = [''cat'', ''dog'']"
      by code_simp
    then show ?thesis
      unfolding first that by (simp add: spec_candidate_list_def is_list_def)
  qed
  from first fails scenario show ?thesis by blast
qed

text \<open>The fourth scenario of the specification, and an object whose first list is
  empty.\<close>

theorem candidate_list_resolution_witness:
  "fst (extract_objects_with_llm
          (stub_services ''{\"objects\": [\"Cat\", \"Dog\"]}''
             (JObj [(''objects'', JList [JStr ''Cat'', JStr ''Dog''])]) [])
          ''A cat and a dog'') = Inr [''cat'', ''dog''] \<and>
   fst (extract_objects_with_llm
          (stub_services ''{\"note\": \"two\", \"empty\": [], \"objects\": [\"Cat\"]}''
             (JObj [(''note'', JStr ''two''), (''empty'', JList []), (''objects'', JList [JStr ''Cat''])]) [])
          ''A cat'') = Inr []"
proof -
  let ?d1 = "JObj [(''objects'', JList [JStr ''Cat'', JStr ''Dog''])]"
  let ?e1 = "stub_services ''{\"objects\": [\"Cat\", \"Dog\"]}'' ?d1 []"
  let ?d2 = "JObj [(''note'', JStr ''two''), (''empty'', JList []), (''objects'', JList [JStr ''Cat''])]"
  let ?e2 = "stub_services ''{\"note\": \"two\", \"empty\": [], \"objects\": [\"Cat\"]}'' ?d2 []"
  have k: "\<not> no_key (stub_services t d rs)" for t d rs
    by (simp add: no_key_def stub_services_def)
  have c: "chat_create (stub_services t d rs) cap = Inr (Some t # [])" for t d rs cap
    by (simp add: stub_services_def chat_create_def)
  have j: "json_loads (stub_services t d rs) t = Inr d" for t d rs
    by (simp add: stub_services_def)
  have s2: "spec_candidate_list ?d2 = Some []"
    by (simp add: spec_candidate_list_def is_list_def)
  have w1: "fst (extract_objects_with_llm ?e1 ''A cat and a dog'') = Inr [''cat'', ''dog'']"
    using candidate_list_resolution [where env = ?e1 and c = "''A cat and a dog''" and data = ?d1, OF k c j]
    by blast
  have w2: "fst (extract_objects_with_llm ?e2 ''A cat'') = Inr []"
    using candidate_list_resolution [where env = ?e2 and c = "''A cat''" and data = ?d2, OF k c j] s2
    by simp
  from w1 w2 show ?thesis by blast
qed

text \<open>
  C6. Once the credential is set and the client of line 24 is built, the extractor
  always returns a list: no exception leaves it. Every exception of the body of its
  \<^verbatim>\<open>try\<close>, and so every error of the call to the text service and every error of
  \<^verbatim>\<open>json.loads\<close>, is printed and turned into the empty list, and
  \<^verbatim>\<open>verify_caption\<close> then returns on its first path. (The constructor of line 24
  stands before the \<^verbatim>\<open>try\<close>; it sends nothing and parses nothing, and an exception
  of its own leaves the extractor, as \<open>extract_constructor_raises\<close> says.)
\<close>

theorem extractor_catches_errors:
  assumes "\<not> no_key env" and "groq_client env = Inr client"
  shows "(\<exists>objects. fst (extract_objects_with_llm env c) = Inr objects) \<and>
         (llm_request env client c = Inl e \<or> client c = Inl e \<or>
          (client c = Inr (Some content # rest) \<and> json_loads env content = Inl e) \<longrightarrow>
            extract_objects_with_llm env c =
              (Inr [], [GroqRequest c, PrintExc ''Error communicating with Groq API: '' e]) \<and>
            fst (verify_caption env p c) = Inr NoCaptionObjects)"
proof -
  have returns: "\<exists>objects. fst (extract_objects_with_llm env c) = Inr objects"
    by (simp add: extract_with_key [OF assms] split: sum.splits)
  have caught: "extract_objects_with_llm env c =
              (Inr [], [GroqRequest c, PrintExc ''Error communicating with Groq API: '' e]) \<and>
            fst (verify_caption env p c) = Inr NoCaptionObjects"
    if "llm_request env client c = Inl e"
    by (simp add: extract_failed [OF assms that] verify_caption_fst)
  have transport: "llm_request env client c = Inl e" if "client c = Inl e"
    by (simp add: llm_request_def that)
  have parse: "llm_request env client c = Inl e"
    if "client c = Inr (Some content # rest) \<and> json_loads env content = Inl e"
    using that by (simp add: llm_request_def)
  from returns caught transport parse show ?thesis by blast
qed

text \<open>A text service that cannot be reached, and a reply that is not JSON.\<close>

theorem extractor_catches_errors_witness:
  "extract_objects_with_llm
     ((stub_services [] JNull [[16]])\<lparr>groq_client := Inr (\<lambda>caption. Inl (APIError ''Connection error.''))\<rparr>)
     ''a dog''
     = (Inr [], [GroqRequest ''a dog'',
                 PrintExc ''Error communicating with Groq API: '' (APIError ''Connection error.'')]) \<and>
   extract_objects_with_llm
     ((stub_services ''Sure! The objects are: dog'' JNull [[16]])
        \<lparr>json_loads := (\<lambda>s. Inl (JSONDecodeError ''Expecting value: line 1 column 1 (char 0)''))\<rparr>)
     ''a dog''
     = (Inr [], [GroqRequest ''a dog'',
                 PrintExc ''Error communicating with Groq API: ''
                   (JSONDecodeError ''Expecting value: line 1 column 1 (char 0)'')]) \<and>
   fst (verify_caption
     ((stub_services ''Sure! The objects are: dog'' JNull [[16]])
        \<lparr>json_loads := (\<lambda>s. Inl (JSONDecodeError ''Expecting value: line 1 column 1 (char 0)''))\<rparr>)
     ''assets/dogs.jpg'' ''a dog'') = Inr NoCaptionObjects"
proof -
  let ?clA = "\<lambda>caption :: string. (Inl (APIError ''Connection error.'') :: py_error + string option list)"
  let ?clB = "\<lambda>caption :: string. (Inr [Some ''Sure! The objects are: dog''] :: py_error + string option list)"
  let ?A = "(stub_services [] JNull [[16]])\<lparr>groq_client := Inr ?clA\<rparr>"
  let ?B = "(stub_services ''Sure! The objects are: dog'' JNull [[16]])
        \<lparr>json_loads := (\<lambda>s. Inl (JSONDecodeError ''Expecting value: line 1 column 1 (char 0)''))\<rparr>"
  have kA: "\<not> no_key ?A" and kB: "\<not> no_key ?B"
    by (simp_all add: no_key_def stub_services_def)
  have gA: "groq_client ?A = Inr ?clA"
    by simp
  have gB: "groq_client ?B = Inr ?clB"
    by (simp add: stub_services_def)
  have tA: "?clA ''a dog'' = Inl (APIError ''Connection error.'')"
    by simp
  have tB: "?clB ''a dog'' = Inr (Some ''Sure! The objects are: dog'' # []) \<and>
      json_loads ?B ''Sure! The objects are: dog''
        = Inl (JSONDecodeError ''Expecting value: line 1 column 1 (char 0)'')"
    by (simp add: stub_services_def)
  from extractor_catches_errors [OF kA gA, where c = "''a dog''" and e = "APIError ''Connection error.''"] tA
    extractor_catches_errors [OF kB gB, where c = "''a dog''" and p = "''assets/dogs.jpg''"
      and e = "JSONDecodeError ''Expecting value: line 1 column 1 (char 0)''"
      and content = "''Sure! The objects are: dog''" and rest = "[]"] tB
  show ?thesis by blast
qed

text \<open>
  C10. For every reply whose list the extractor accepts, the result has one token per
  element, the lowercased \<^verbatim>\<open>str()\<close> of that element, whatever the JSON type of the
  element; nothing is printed, so no element makes the extraction fail; every token is
  lowercase (it has no letter from A to Z and \<^verbatim>\<open>lower()\<close> leaves it unchanged); and
  a top-level list is accepted whatever its elements are.
\<close>

theorem elements_coerced_to_strings:
  assumes "\<not> no_key env" and "chat_create env c = Inr (Some content # rest)"
    and "json_loads env content = Inr data" and "find_list data = Inr items"
  shows "extract_objects_with_llm env c =
           (Inr (map (\<lambda>item. py_lower (py_str item)) items), [GroqRequest c]) \<and>
         (\<forall>t \<in> set (map (\<lambda>item. py_lower (py_str item)) items).
            py_lower t = t \<and>
            (\<forall>ch \<in> set t. \<not> (65 \<le> (of_char ch :: nat) \<and> (of_char ch :: nat) \<le> 90))) \<and>
         find_list (JList xs) = Inr xs"
proof -
  have lowered: "py_lower t = t \<and>
      (\<forall>ch \<in> set t. \<not> (65 \<le> (of_char ch :: nat) \<and> (of_char ch :: nat) \<le> 90))"
    if "t \<in> set (map (\<lambda>item. py_lower (py_str item)) items)" for t
  proof -
    from that obtain item where "t = py_lower (py_str item)" by auto
    then show ?thesis using py_lower_no_upper by (simp add: py_lower_idem)
  qed
  have accepted: "find_list (JList xs) = Inr xs"
    by (simp add: find_list_def)
  from extract_accepted [OF assms] lowered accepted show ?thesis by blast
qed

text \<open>A reply whose elements are a number, a boolean, null, an object, a string, a
  float and a list.\<close>

theorem elements_coerced_to_strings_witness:
  "extract_objects_with_llm
     (stub_services ''[42, true, null, {\"Kind\": \"Dog\"}, \"Cat\", 1.5, [\"A\", -7]]''
        (JList [JInt 42, JBool True, JNull, JObj [(''Kind'', JStr ''Dog'')], JStr ''Cat'',
                JFloat ''1.5'', JList [JStr ''A'', JInt (- 7)]]) [])
     ''a cat''
   = (Inr [''42'', ''true'', ''none'', ''{'kind': 'dog'}'', ''cat'', ''1.5'', ''['a', -7]''],
      [GroqRequest ''a cat''])"
proof -
  let ?data = "JList [JInt 42, JBool True, JNull, JObj [(''Kind'', JStr ''Dog'')], JStr ''Cat'',
                JFloat ''1.5'', JList [JStr ''A'', JInt (- 7)]]"
  let ?env = "stub_services ''[42, true, null, {\"Kind\": \"Dog\"}, \"Cat\", 1.5, [\"A\", -7]]'' ?data []"
  have k: "\<not> no_key ?env"
    by (simp add: no_key_def stub_services_def)
  have c: "chat_create ?env ''a cat'' = Inr (Some ''[42, true, null, {\"Kind\": \"Dog\"}, \"Cat\", 1.5, [\"A\", -7]]'' # [])"
    by (simp add: stub_services_def chat_create_def)
  have j: "json_loads ?env ''[42, true, null, {\"Kind\": \"Dog\"}, \"Cat\", 1.5, [\"A\", -7]]'' = Inr ?data"
    by (simp add: stub_services_def)
  have f: "find_list ?data = Inr [JInt 42, JBool True, JNull, JObj [(''Kind'', JStr ''Dog'')], JStr ''Cat'',
                JFloat ''1.5'', JList [JStr ''A'', JInt (- 7)]]"
    by (simp add: find_list_def)
  have m: "map (\<lambda>item. py_lower (py_str item))
             [JInt 42, JBool True, JNull, JObj [(''Kind'', JStr ''Dog'')], JStr ''Cat'',
                JFloat ''1.5'', JList [JStr ''A'', JInt (- 7)]]
           = [''42'', ''true'', ''none'', ''{'kind': 'dog'}'', ''cat'', ''1.5'', ''['a', -7]'']"
    by code_simp
  from elements_coerced_to_strings [OF k c j f] show ?thesis
    unfolding m by blast
qed

section \<open>Normalization\<close>

text \<open>
  Against C2 as stated: the specification's normalization trims white space. The code
  does not: the names
  \<^verbatim>\<open>"Dog"\<close> and \<^verbatim>\<open>" dog "\<close> of one reply stay two names, and a caption object
  \<^verbatim>\<open>" dog "\<close> is reported as a hallucination next to a detected dog.
\<close>

theorem trimming_counterexample:
  "fst (extract_objects_with_llm
          (stub_services ''[\"Dog\", \" dog \"]'' (JList [JStr ''Dog'', JStr '' dog '']) [[16]])
          ''A Dog and a dog'') = Inr [''dog'', '' dog ''] \<and>
   py_lower (py_str (JStr ''Dog'')) \<noteq> py_lower (py_str (JStr '' dog '')) \<and>
   fst (verify_caption
          (stub_services ''[\"Dog\", \" dog \"]'' (JList [JStr ''Dog'', JStr '' dog '']) [[16]])
          ''assets/dogs.jpg'' ''A Dog and a dog'')
     = Inr (Reported \<lparr>verified = {''dog''}, hallucinated = {'' dog ''}\<rparr>)"
  by code_simp

text \<open>
  C2, amended. Normalization is lowercasing alone, with no trimming: every token of the
  text extractor is \<^verbatim>\<open>str(item).lower()\<close> and every name of the detector is
  \<^verbatim>\<open>class_name.lower()\<close>. \<^verbatim>\<open>lower()\<close> is idempotent, and \<^verbatim>\<open>"Dog"\<close> and
  \<^verbatim>\<open>"dog"\<close> are one name. On ASCII text it works character by character, keeps the
  length, and keeps a blank at either end of the string.
\<close>

theorem normalization_is_lowercasing:
  "(\<not> no_key env \<and> chat_create env c = Inr (Some content # rest) \<and>
    json_loads env content = Inr data \<and> find_list data = Inr items \<longrightarrow>
      fst (extract_objects_with_llm env c) = Inr (map (\<lambda>item. py_lower (py_str item)) items)) \<and>
   (fst (detect_objects_with_yolo env p) = Inr D \<longrightarrow>
      (\<exists>names results. yolo_load env = Inr names \<and> yolo_infer env p = Inr results \<and>
         set (concat results) \<subseteq> dom names \<and>
         set D = (\<lambda>class_id. py_lower (the (names class_id))) ` set (concat results))) \<and>
   py_lower (py_lower s) = py_lower s \<and>
   py_lower ''Dog'' = py_lower ''dog'' \<and>
   (isascii s \<longrightarrow>
      py_lower s = map lower_char s \<and>
      length (py_lower s) = length s \<and>
      py_lower ('' '' @ s @ '' '') = '' '' @ py_lower s @ '' '')"
proof -
  have text_side: "fst (extract_objects_with_llm env c) = Inr (map (\<lambda>item. py_lower (py_str item)) items)"
    if "\<not> no_key env \<and> chat_create env c = Inr (Some content # rest) \<and>
        json_loads env content = Inr data \<and> find_list data = Inr items"
    using that by (simp add: extract_accepted)
  have image_side: "\<exists>names results. yolo_load env = Inr names \<and> yolo_infer env p = Inr results \<and>
         set (concat results) \<subseteq> dom names \<and>
         set D = (\<lambda>class_id. py_lower (the (names class_id))) ` set (concat results)"
    if "fst (detect_objects_with_yolo env p) = Inr D"
    using detect_Inr [OF that] by blast
  have dog: "py_lower ''Dog'' = py_lower ''dog''"
    by code_simp
  have blank: "lower_char CHR '' '' = CHR '' ''"
    by code_simp
  have ascii: "py_lower s = map lower_char s \<and> length (py_lower s) = length s \<and>
      py_lower ('' '' @ s @ '' '') = '' '' @ py_lower s @ '' ''"
    by (simp add: py_lower_def blank)
  from text_side image_side dog ascii py_lower_idem [of s] show ?thesis
    by blast
qed

text \<open>A wrapped reply in mixed case, an image with a dog and a couch, and a string with
  white space around it.\<close>

theorem normalization_is_lowercasing_witness:
  "fst (extract_objects_with_llm
          (stub_services ''{\"objects\": [\"Dog\", \"COUCH\"]}''
             (JObj [(''objects'', JList [JStr ''Dog'', JStr ''COUCH''])]) [[16, 57]])
          ''A Dog on a COUCH'') = Inr [''dog'', ''couch''] \<and>
   set (case fst (detect_objects_with_yolo
          (stub_services ''{\"objects\": [\"Dog\", \"COUCH\"]}''
             (JObj [(''objects'', JList [JStr ''Dog'', JStr ''COUCH''])]) [[16, 57]])
          ''assets/dogs.jpg'') of Inr D \<Rightarrow> D | Inl e \<Rightarrow> []) = {''dog'', ''couch''} \<and>
   isascii ''Dog'' \<and>
   py_lower '' Dog '' = '' dog '' \<and> length (py_lower ''Dog'') = 3"
proof -
  let ?data = "JObj [(''objects'', JList [JStr ''Dog'', JStr ''COUCH''])]"
  let ?env = "stub_services ''{\"objects\": [\"Dog\", \"COUCH\"]}'' ?data [[16, 57]]"
  have h: "\<not> no_key ?env \<and>
      chat_create ?env ''A Dog on a COUCH'' = Inr (Some ''{\"objects\": [\"Dog\", \"COUCH\"]}'' # []) \<and>
      json_loads ?env ''{\"objects\": [\"Dog\", \"COUCH\"]}'' = Inr ?data \<and>
      find_list ?data = Inr [JStr ''Dog'', JStr ''COUCH'']"
    by (simp add: no_key_def stub_services_def chat_create_def find_list_def)
  have m: "map (\<lambda>item. py_lower (py_str item)) [JStr ''Dog'', JStr ''COUCH''] = [''dog'', ''couch'']"
    by code_simp
  have d: "fst (detect_objects_with_yolo ?env ''assets/dogs.jpg'') = Inr [''dog'', ''couch'']"
    by code_simp
  have a: "isascii ''Dog''"
    by code_simp
  have l: "map lower_char ''Dog'' = ''dog''"
    by code_simp
  from normalization_is_lowercasing [where env = ?env and c = "''A Dog on a COUCH''"
      and content = "''{\"objects\": [\"Dog\", \"COUCH\"]}''" and rest = "[]" and data = ?data
      and items = "[JStr ''Dog'', JStr ''COUCH'']" and p = "''assets/dogs.jpg''"
      and D = "[''dog'', ''couch'']" and s = "''Dog''"] h a
  have "fst (extract_objects_with_llm ?env ''A Dog on a COUCH'')
          = Inr (map (\<lambda>item. py_lower (py_str item)) [JStr ''Dog'', JStr ''COUCH''])"
    and "py_lower ''Dog'' = map lower_char ''Dog''" and "length (py_lower ''Dog'') = length ''Dog''"
    and "py_lower ('' '' @ ''Dog'' @ '' '') = '' '' @ py_lower ''Dog'' @ '' ''"
    by blast+
  with m d l a show ?thesis by simp
qed

section \<open>Duplicates\<close>

text \<open>
  Against C9 as stated: the extractor returns a list, and a reply that names an object
  twice gives a list with that name twice.
\<close>

theorem duplicates_counterexample:
  "fst (extract_objects_with_llm
          (stub_services ''[\"cat\", \"Cat\"]'' (JList [JStr ''cat'', JStr ''Cat'']) [])
          ''A cat and a Cat'') = Inr [''cat'', ''cat''] \<and>
   \<not> distinct [''cat'', ''cat'']"
  by code_simp

text \<open>
  C9, amended. The detector returns each distinct lowercased class label once. The text
  extractor returns a list with one token per element of the accepted list, so a name
  can occur more than once in it; the comparison reads the list as a set, so a repeated
  name counts once in the report.
\<close>

theorem detector_distinct_extractor_list:
  "(fst (detect_objects_with_yolo env p) = Inr D \<longrightarrow>
      distinct D \<and>
      (\<exists>names results. yolo_load env = Inr names \<and> yolo_infer env p = Inr results \<and>
         set D = (\<lambda>class_id. py_lower (the (names class_id))) ` set (concat results))) \<and>
   (\<not> no_key env \<and> chat_create env c = Inr (Some content # rest) \<and>
    json_loads env content = Inr data \<and> find_list data = Inr items \<longrightarrow>
      (\<exists>objects. fst (extract_objects_with_llm env c) = Inr objects \<and>
         length objects = length items \<and>
         set objects = (\<lambda>item. py_lower (py_str item)) ` set items)) \<and>
   (set C = set C' \<longrightarrow> reconcile C D' = reconcile C' D')"
proof -
  have image_side: "distinct D \<and>
      (\<exists>names results. yolo_load env = Inr names \<and> yolo_infer env p = Inr results \<and>
         set D = (\<lambda>class_id. py_lower (the (names class_id))) ` set (concat results))"
    if "fst (detect_objects_with_yolo env p) = Inr D"
    using detect_Inr [OF that] by blast
  have text_side: "\<exists>objects. fst (extract_objects_with_llm env c) = Inr objects \<and>
         length objects = length items \<and>
         set objects = (\<lambda>item. py_lower (py_str item)) ` set items"
    if "\<not> no_key env \<and> chat_create env c = Inr (Some content # rest) \<and>
        json_loads env content = Inr data \<and> find_list data = Inr items"
    using that by (simp add: extract_accepted)
  from image_side text_side reconcile_cong show ?thesis by blast
qed

text \<open>Four boxes of two classes, and a reply that names the cat twice.\<close>

theorem detector_distinct_extractor_list_witness:
  "(\<exists>D. fst (detect_objects_with_yolo
          (stub_services ''[\"cat\", \"Cat\"]'' (JList [JStr ''cat'', JStr ''Cat'']) [[15, 15], [16, 15]])
          ''cats.jpg'') = Inr D \<and> distinct D \<and> set D = {''cat'', ''dog''}) \<and>
   (\<exists>objects. fst (extract_objects_with_llm
          (stub_services ''[\"cat\", \"Cat\"]'' (JList [JStr ''cat'', JStr ''Cat'']) [[15, 15], [16, 15]])
          ''A cat and a Cat'') = Inr objects \<and> length objects = 2 \<and> set objects = {''cat''}) \<and>
   reconcile [''cat'', ''cat''] [''cat'', ''dog''] = reconcile [''cat''] [''cat'', ''dog'']"
proof -
  let ?data = "JList [JStr ''cat'', JStr ''Cat'']"
  let ?env = "stub_services ''[\"cat\", \"Cat\"]'' ?data [[15, 15], [16, 15]]"
  have d: "fst (detect_objects_with_yolo ?env ''cats.jpg'') = Inr [''cat'', ''dog'']"
    by code_simp
  have h: "\<not> no_key ?env \<and>
      chat_create ?env ''A cat and a Cat'' = Inr (Some ''[\"cat\", \"Cat\"]'' # []) \<and>
      json_loads ?env ''[\"cat\", \"Cat\"]'' = Inr ?data \<and>
      find_list ?data = Inr [JStr ''cat'', JStr ''Cat'']"
    by (simp add: no_key_def stub_services_def chat_create_def find_list_def)
  have m: "(\<lambda>item. py_lower (py_str item)) ` set [JStr ''cat'', JStr ''Cat''] = {''cat''}"
    by code_simp
  have s: "set [''cat'', ''cat''] = set [''cat'']"
    by simp
  from detector_distinct_extractor_list [where env = ?env and p = "''cats.jpg''" and D = "[''cat'', ''dog'']"
      and c = "''A cat and a Cat''" and content = "''[\"cat\", \"Cat\"]''" and rest = "[]"
      and data = ?data and items = "[JStr ''cat'', JStr ''Cat'']"
      and C = "[''cat'', ''cat'']" and C' = "[''cat'']" and D' = "[''cat'', ''dog'']"] d h s
  have "distinct [''cat'', ''dog'']"
    and "\<exists>objects. fst (extract_objects_with_llm ?env ''A cat and a Cat'') = Inr objects \<and>
         length objects = length [JStr ''cat'', JStr ''Cat''] \<and>
         set objects = (\<lambda>item. py_lower (py_str item)) ` set [JStr ''cat'', JStr ''Cat'']"
    and "reconcile [''cat'', ''cat''] [''cat'', ''dog''] = reconcile [''cat''] [''cat'', ''dog'']"
    by blast+
  with d m show ?thesis by (auto simp: numeral_2_eq_2)
qed

section \<open>The credential and the command line\<close>

text \<open>
  Against C7 as stated: the specification has the missing credential raised at startup, before any step of
  the pipeline. In the code the start of the script succeeds without it (the sample
  image is downloaded), and the error is raised by the call of the extractor, after
  \<^verbatim>\<open>verify_caption\<close> has announced its first step.
\<close>

theorem missing_key_counterexample:
  "no_key ((stub_services [] JNull [[16]])\<lparr>GROQ_API_KEY := None\<rparr>) \<and>
   fst (setup_environment ((stub_services [] JNull [[16]])\<lparr>GROQ_API_KEY := None\<rparr>) {}) = Returned \<and>
   extract_objects_with_llm ((stub_services [] JNull [[16]])\<lparr>GROQ_API_KEY := None\<rparr>) ''a dog''
     = (Inl (ValueError ''GROQ_API_KEY not found. Please set it in your .env file.''), []) \<and>
   script ((stub_services [] JNull [[16]])\<lparr>GROQ_API_KEY := None\<rparr>) {} None (Some ''a dog'')
     = (Raised (ValueError ''GROQ_API_KEY not found. Please set it in your .env file.''),
        [Mkdir ''assets'',
         Print ''Downloading sample image to assets/dogs.jpg...'',
         HttpGet ''https://images.pexels.com/photos/1108099/pexels-photo-1108099.jpeg'',
         Print ''Download complete.'',
         Print (CHR 0x0A # ''--- Verifying Caption --- ''),
         Print ''IMAGE: assets/dogs.jpg'',
         Print (''CAPTION: '' @ [CHR 0x22] @ ''a dog'' @ [CHR 0x22, CHR 0x0A]),
         Print ''Step 1: Extracting objects from caption using LLM...''])"
  by code_simp

text \<open>
  C7, amended. When the credential is unset or empty, every call of the text extractor
  raises \<^verbatim>\<open>ValueError\<close> before the text service is contacted (the call has no
  effect), and the error is fatal: it is not turned into an empty result,
  \<^verbatim>\<open>verify_caption\<close> lets it through after printing its header only (no
  detection, no report), and a run of the script that gets past
  \<^verbatim>\<open>setup_environment\<close> with the path of an existing image ends with the exception,
  so the process exits with status 1.
\<close>

theorem missing_key_raised_by_extractor:
  assumes "no_key env"
  shows "extract_objects_with_llm env c =
           (Inl (ValueError ''GROQ_API_KEY not found. Please set it in your .env file.''), []) \<and>
         fst (verify_caption env p c) =
           Inl (ValueError ''GROQ_API_KEY not found. Please set it in your .env file.'') \<and>
         (\<forall>ev \<in> set (snd (verify_caption env p c)). \<exists>line. ev = Print line) \<and>
         (fst (setup_environment env files) = Returned \<and>
          (case image_arg of None \<Rightarrow> DEFAULT_IMAGE_PATH | Some q \<Rightarrow> q) \<in> files \<longrightarrow>
            fst (script env files image_arg (Some c)) =
              Raised (ValueError ''GROQ_API_KEY not found. Please set it in your .env file.'') \<and>
            exit_code (fst (script env files image_arg (Some c))) = 1)"
proof -
  note v = verify_caption_missing_key [OF assms]
  have orch: "fst (verify_caption env p c) =
           Inl (ValueError ''GROQ_API_KEY not found. Please set it in your .env file.'')"
    by (simp add: v)
  have prints: "\<forall>ev \<in> set (snd (verify_caption env p c)). \<exists>line. ev = Print line"
    by (simp add: v)
  have run: "fst (script env files image_arg (Some c)) =
              Raised (ValueError ''GROQ_API_KEY not found. Please set it in your .env file.'') \<and>
            exit_code (fst (script env files image_arg (Some c))) = 1"
    if h: "fst (setup_environment env files) = Returned \<and>
          (case image_arg of None \<Rightarrow> DEFAULT_IMAGE_PATH | Some q \<Rightarrow> q) \<in> files"
  proof -
    from h obtain out1 files1 where s: "setup_environment env files = (Returned, out1, files1)"
      by (cases "setup_environment env files") auto
    from setup_environment_files [OF s] h
    have "(case image_arg of None \<Rightarrow> DEFAULT_IMAGE_PATH | Some q \<Rightarrow> q) \<in> files1"
      by blast
    then have "fst (main env files1 image_arg (Some c)) =
        Raised (ValueError ''GROQ_API_KEY not found. Please set it in your .env file.'')"
      by (simp add: main_def v Let_def)
    then show ?thesis
      by (simp add: script_after_setup [OF s] exit_code_def)
  qed
  from extract_missing_key [OF assms, of c] orch prints run show ?thesis
    by blast
qed

text \<open>An empty credential.\<close>

theorem missing_key_raised_by_extractor_witness:
  "extract_objects_with_llm ((stub_services [] JNull [[16]])\<lparr>GROQ_API_KEY := Some []\<rparr>) ''a dog''
     = (Inl (ValueError ''GROQ_API_KEY not found. Please set it in your .env file.''), []) \<and>
   fst (verify_caption ((stub_services [] JNull [[16]])\<lparr>GROQ_API_KEY := Some []\<rparr>) ''dog.jpg'' ''a dog'')
     = Inl (ValueError ''GROQ_API_KEY not found. Please set it in your .env file.'') \<and>
   fst (script ((stub_services [] JNull [[16]])\<lparr>GROQ_API_KEY := Some []\<rparr>) {''dog.jpg''}
          (Some ''dog.jpg'') (Some ''a dog''))
     = Raised (ValueError ''GROQ_API_KEY not found. Please set it in your .env file.'') \<and>
   exit_code (fst (script ((stub_services [] JNull [[16]])\<lparr>GROQ_API_KEY := Some []\<rparr>) {''dog.jpg''}
          (Some ''dog.jpg'') (Some ''a dog''))) = 1"
proof -
  let ?env = "(stub_services [] JNull [[16]])\<lparr>GROQ_API_KEY := Some []\<rparr>"
  have k: "no_key ?env"
    by (simp add: no_key_def)
  have f: "fst (setup_environment ?env {''dog.jpg''}) = Returned \<and>
      (case Some ''dog.jpg'' of None \<Rightarrow> DEFAULT_IMAGE_PATH | Some q \<Rightarrow> q) \<in> {''dog.jpg''}"
    by code_simp
  from missing_key_raised_by_extractor [OF k, where c = "''a dog''" and p = "''dog.jpg''"
      and files = "{''dog.jpg''}" and image_arg = "Some ''dog.jpg''"] f
  show ?thesis by blast
qed

text \<open>
  C8. The specification has the process exit with a non-zero status when the image
  path does not exist. With the sample image in place and \<^verbatim>\<open>--image missing.jpg\<close>,
  \<^verbatim>\<open>main\<close> prints its error and returns, so the script ends normally and the exit
  status is 0. The other error path of the script, a failed download in
  \<^verbatim>\<open>setup_environment\<close>, calls \<^verbatim>\<open>exit(1)\<close>.
\<close>

theorem missing_image_exit_status:
  "script (stub_services ''[\"dog\"]'' (JList [JStr ''dog'']) [[16]]) {''assets'', ''assets/dogs.jpg''}
     (Some ''missing.jpg'') (Some ''a dog'')
     = (Returned, [Mkdir ''assets'', Print ''Error: Image file not found at missing.jpg'']) \<and>
   exit_code (fst (script (stub_services ''[\"dog\"]'' (JList [JStr ''dog'']) [[16]])
                     {''assets'', ''assets/dogs.jpg''} (Some ''missing.jpg'') (Some ''a dog''))) = 0 \<and>
   exit_code (fst (script ((stub_services ''[\"dog\"]'' (JList [JStr ''dog'']) [[16]])
                             \<lparr>download := (\<lambda>url. Inl (RequestException ''404 Client Error''))\<rparr>)
                     {} (Some ''missing.jpg'') (Some ''a dog''))) = 1"
  by code_simp

end
